theory Spec2Isabelle
  imports Main
begin

section \<open>Values, errors and outcomes of a call\<close>

text \<open>
  A handler of vk returns \<^verbatim>\<open>(interface{}, error)\<close>. The error is \<^verbatim>\<open>nil\<close>, a
  \<^verbatim>\<open>vk.Error\<close> built by \<^verbatim>\<open>E(status, message)\<close>, or any other Go error, of which
  only the text of \<^verbatim>\<open>Error()\<close> is observable. A \<^verbatim>\<open>[]byte\<close> is a list of
  \<^typ>\<open>char\<close> (a \<^typ>\<open>char\<close> is one byte), and \<^verbatim>\<open>string(body)\<close> keeps the bytes.
\<close>

type_synonym bytes = string

datatype error = VkError int string | GenericError string

text \<open>
  Modelled from the spec: \<^verbatim>\<open>E\<close>, the constructor of the typed error (its declaration is
  not in router.go or middleware.go): "TypedError: {status: integer, message: string}".
\<close>

definition E :: "int \<Rightarrow> string \<Rightarrow> error" where
  "E status message = VkError status message"

text \<open>
  Modelled from the spec: the typed response (\<^verbatim>\<open>vk.Response\<close>, declared outside these
  files): "TypedResponse: {status: integer, body: byte sequence, contentType: optional
  string}".
\<close>

datatype TypedResponse =
  TypedResponse (resp_status: int) (resp_body: bytes) (resp_contentType: "string option")

text \<open>
  The \<^verbatim>\<open>interface{}\<close> a handler returns: \<^verbatim>\<open>nil\<close>, a \<^verbatim>\<open>[]byte\<close>, a typed response,
  or any other value (a struct), of type \<^typ>\<open>'a\<close>.
\<close>

datatype 'a val = NilValue | Bytes bytes | Typed TypedResponse | Struct 'a

text \<open>
  A Go call either returns or panics. A panic unwinds the callers and runs their deferred
  functions; what the callee wrote to the shared state before it panicked stays
  written, so every call yields an outcome and the state it left.
\<close>

datatype 'a outcome = Returned 'a | Panicked string

section \<open>Response headers and the state of one request\<close>

text \<open>
  \<^verbatim>\<open>http.Header\<close> is a \<^verbatim>\<open>map[string][]string\<close>. \<^verbatim>\<open>Set\<close> replaces the values of a
  key by the single value given, \<^verbatim>\<open>Get\<close> reads the first value of a key and the empty
  string when there is none. net/http puts the key into canonical form first; every
  key these files pass is in canonical form already.
\<close>

type_synonym Header = "string \<rightharpoonup> string list"

definition Header_Set :: "string \<Rightarrow> string \<Rightarrow> Header \<Rightarrow> Header" where
  "Header_Set key v h = h(key \<mapsto> [v])"

definition Header_Get :: "string \<Rightarrow> Header \<Rightarrow> string" where
  "Header_Get key h = (case h key of None \<Rightarrow> [] | Some [] \<Rightarrow> [] | Some (v # _) \<Rightarrow> v)"

definition contentTypeHeaderKey :: string where
  "contentTypeHeaderKey = ''Content-Type''"

text \<open>
  The state a handler can change through \<^verbatim>\<open>w\<close> and \<^verbatim>\<open>ctx\<close>. httpHandlerWrap builds
  the context with \<^verbatim>\<open>NewCtx(rt.log, params, w.Header())\<close>: \<^verbatim>\<open>ctx.RespHeaders\<close> and
  \<^verbatim>\<open>w.Header()\<close> are one and the same map, so the state has one field for both.

  \<^verbatim>\<open>http.ResponseWriter\<close> is an interface: \<^verbatim>\<open>w\<close> is whatever writer the server hands
  over, with its own state (\<open>writer\<close>, of a type \<^typ>\<open>'w\<close>) and its own \<^verbatim>\<open>WriteHeader\<close>
  and \<^verbatim>\<open>Write\<close>. Each of the two acts on the header map and the writer's state, and
  returns or panics (net/http's writers panic on a status outside 100..999); what
  \<^verbatim>\<open>Write\<close> returns is dropped by these files. Whatever else a handler reaches is the
  record's extension.
\<close>

record 'w exchange =
  RespHeaders :: Header
  Params :: "(string \<times> string) list"
  writer :: 'w
  writer_WriteHeader :: "int \<Rightarrow> Header \<times> 'w \<Rightarrow> unit outcome \<times> Header \<times> 'w"
  writer_Write :: "bytes \<Rightarrow> Header \<times> 'w \<Rightarrow> unit outcome \<times> Header \<times> 'w"

text \<open>
  \<^verbatim>\<open>HandlerFunc\<close>: the request, the state \<^verbatim>\<open>w\<close> and \<^verbatim>\<open>ctx\<close> give access to, and the
  pair returned (or a panic) with the state left.
\<close>

type_synonym ('r, 's, 'a) HandlerFunc = "'r \<Rightarrow> 's \<Rightarrow> ('a val \<times> error option) outcome \<times> 's"

text \<open>\<^verbatim>\<open>type Middleware func(HandlerFunc) HandlerFunc\<close>\<close>

type_synonym ('r, 's, 'a) Middleware = "('r, 's, 'a) HandlerFunc \<Rightarrow> ('r, 's, 'a) HandlerFunc"

section \<open>middleware.go\<close>

definition ContentTypeMiddleware ::
  "string \<Rightarrow> ('r, ('w, 'z) exchange_scheme, 'a) Middleware" where
  "ContentTypeMiddleware ctype inner =
     (\<lambda>r ctx. inner r (ctx\<lparr>RespHeaders := Header_Set contentTypeHeaderKey ctype (RespHeaders ctx)\<rparr>))"

definition enableCors :: "('w, 'z) exchange_scheme \<Rightarrow> string \<Rightarrow> ('w, 'z) exchange_scheme" where
  "enableCors ctx domain =
     (if domain \<noteq> [] then
        ctx\<lparr>RespHeaders :=
          Header_Set ''Access-Control-Allow-Headers''
            ''Accept, Content-Type, Content-Length, Accept-Encoding, Authorization, cache-control''
            (Header_Set ''X-Requested-With'' ''XMLHttpRequest''
              (Header_Set ''Access-Control-Allow-Origin'' domain (RespHeaders ctx)))\<rparr>
      else ctx)"

definition CORSMiddleware :: "string \<Rightarrow> ('r, ('w, 'z) exchange_scheme, 'a) Middleware" where
  "CORSMiddleware domain inner = (\<lambda>r ctx. inner r (enableCors ctx domain))"

definition CORSHandler :: "string \<Rightarrow> ('r, ('w, 'z) exchange_scheme, 'a) HandlerFunc" where
  "CORSHandler domain = (\<lambda>r ctx. (Returned (NilValue, None), enableCors ctx domain))"

text \<open>
  WrapHandler: a \<^verbatim>\<open>nil\<close> entry of \<^verbatim>\<open>mw\<close> is \<open>None\<close>. The loop replaces the handler by
  \<^verbatim>\<open>m(handler)\<close> for each entry that is not \<^verbatim>\<open>nil\<close>, first to last.
\<close>

fun WrapHandler ::
  "('r, 's, 'a) HandlerFunc \<Rightarrow> ('r, 's, 'a) Middleware option list \<Rightarrow> ('r, 's, 'a) HandlerFunc" where
  "WrapHandler handler [] = handler"
| "WrapHandler handler (m # mw) =
     (case m of
        Some f \<Rightarrow> WrapHandler (f handler) mw
      | None \<Rightarrow> WrapHandler handler mw)"

subsection \<open>augmentHttpHandler and augmentWsHandler\<close>

text \<open>
  These two functions call a middleware as \<^verbatim>\<open>m(r, ctx)\<close> and compare what it returns
  with \<^verbatim>\<open>nil\<close>: here a middleware is a step on the request that returns an error. An
  afterware is called as \<^verbatim>\<open>a(r, ctx)\<close> and returns nothing; like any call it returns
  or panics. (The declaration of \<^verbatim>\<open>Afterware\<close> is not in these files.) A \<^verbatim>\<open>nil\<close>
  entry of either list is a function that panics at once, as the call of a \<^verbatim>\<open>nil\<close>
  function does.

  To state which calls are made and in which order, every call is recorded: the
  functions return, beside the outcome and the state, the list of the calls made, each
  named by its position in its list.
\<close>

datatype event = MiddlewareRun nat | HandlerRun | AfterwareRun nat


type_synonym ('r, 's) Afterware = "'r \<Rightarrow> 's \<Rightarrow> unit outcome \<times> 's"

type_synonym ('r, 's, 'c) WebSocketHandlerFunc = "'r \<Rightarrow> 's \<Rightarrow> 'c \<Rightarrow> error option outcome \<times> 's"

text \<open>
  \<^verbatim>\<open>for _, a := range afterware { a(r, ctx) }\<close>, from position \<open>i\<close> on. Nothing in the
  loop recovers: an afterware that panics ends it, and the afterware after it are not
  called.
\<close>

fun runAfterware ::
  "nat \<Rightarrow> ('r, 's) Afterware list \<Rightarrow> 'r \<Rightarrow> 's \<Rightarrow> unit outcome \<times> 's \<times> event list" where
  "runAfterware i [] r ctx = (Returned (), ctx, [])"
| "runAfterware i (a # as) r ctx =
     (case a r ctx of
        (Returned u, ctx') \<Rightarrow>
          (case runAfterware (Suc i) as r ctx' of
             (res, ctx'', calls) \<Rightarrow> (res, ctx'', AfterwareRun i # calls))
      | (Panicked p, ctx') \<Rightarrow> (Panicked p, ctx', [AfterwareRun i]))"










text \<open>
  Likewise for the afterware: those of a list, each called on the state the one before
  it left, all return; the result is the state after the last of them, \<open>None\<close> when
  one of them panics.
\<close>

fun allReturn :: "('r, 's) Afterware list \<Rightarrow> 'r \<Rightarrow> 's \<Rightarrow> 's option" where
  "allReturn [] r ctx = Some ctx"
| "allReturn (a # as) r ctx =
     (case a r ctx of
        (Returned u, ctx') \<Rightarrow> allReturn as r ctx'
      | (Panicked p, ctx') \<Rightarrow> None)"

section \<open>The response resolver\<close>

text \<open>
  Modelled from the spec: \<^verbatim>\<open>responseOrOtherToBytes\<close> (called by httpHandlerWrap, defined
  outside router.go and middleware.go), the spec's ResolveValue: "if value is a
  TypedResponse, use its fields verbatim (default status 200 if unset, body as given,
  content type as given or undetected). If value is a raw byte sequence, status=200,
  body=as-is, contentType left undetected. If value is any other non-nil structured value,
  status=200, body=JSON-serialized value, contentType="application/json". If value is nil,
  status=200, empty body", and "never fail; worst case degrades to a 500 with a generic
  message". An unset status is Go's zero, an undetected content type the empty string.
  \<open>marshal\<close> is the JSON encoder, \<open>None\<close> when it fails; the spec leaves the text of the
  generic message open, \<open>genericErrorResponseBytes\<close> stands for it.
\<close>

definition genericErrorResponseBytes :: bytes where
  "genericErrorResponseBytes = ''Internal Server Error''"

definition responseOrOtherToBytes :: "('a \<Rightarrow> bytes option) \<Rightarrow> 'a val \<Rightarrow> int \<times> bytes \<times> string" where
  "responseOrOtherToBytes marshal v =
     (case v of
        Typed resp \<Rightarrow>
          (if resp_status resp = 0 then 200 else resp_status resp,
           resp_body resp,
           case resp_contentType resp of Some ctype \<Rightarrow> ctype | None \<Rightarrow> [])
      | Bytes b \<Rightarrow> (200, b, [])
      | Struct x \<Rightarrow>
          (case marshal x of
             Some json \<Rightarrow> (200, json, ''application/json'')
           | None \<Rightarrow> (500, genericErrorResponseBytes, ''text/plain''))
      | NilValue \<Rightarrow> (200, [], []))"

text \<open>
  Modelled from the spec: \<^verbatim>\<open>errorOrOtherToBytes\<close> (called by httpHandlerWrap and
  wsHandlerWrap, defined outside these files), the spec's ResolveError: "if error is a
  TypedError, status=its status, body=its message as plain text, contentType accordingly.
  If error is a generic error, status=500, body=the error's textual description,
  contentType="text/plain"".
\<close>

definition errorOrOtherToBytes :: "error \<Rightarrow> int \<times> bytes \<times> string" where
  "errorOrOtherToBytes err =
     (case err of
        VkError status message \<Rightarrow> (status, message, ''text/plain'')
      | GenericError description \<Rightarrow> (500, description, ''text/plain''))"

section \<open>router.go\<close>

text \<open>
  \<^verbatim>\<open>w.WriteHeader(code)\<close> and \<^verbatim>\<open>w.Write(b)\<close>: the calls of the writer's own methods.
\<close>

definition WriteHeader ::
  "int \<Rightarrow> ('w, 'z) exchange_scheme \<Rightarrow> unit outcome \<times> ('w, 'z) exchange_scheme" where
  "WriteHeader code w =
     (case writer_WriteHeader w code (RespHeaders w, writer w) of
        (res, h, wr) \<Rightarrow> (res, w\<lparr>RespHeaders := h, writer := wr\<rparr>))"

definition Write ::
  "bytes \<Rightarrow> ('w, 'z) exchange_scheme \<Rightarrow> unit outcome \<times> ('w, 'z) exchange_scheme" where
  "Write b w =
     (case writer_Write w b (RespHeaders w, writer w) of
        (res, h, wr) \<Rightarrow> (res, w\<lparr>RespHeaders := h, writer := wr\<rparr>))"

text \<open>
  Lines 160 and 161 of httpHandlerWrap, \<^verbatim>\<open>w.WriteHeader(status); w.Write(body)\<close>: a
  panic of \<^verbatim>\<open>WriteHeader\<close> is not recovered, and then \<^verbatim>\<open>Write\<close> is not called.
\<close>

definition writeResponse ::
  "int \<Rightarrow> bytes \<Rightarrow> ('w, 'z) exchange_scheme \<Rightarrow> unit outcome \<times> ('w, 'z) exchange_scheme" where
  "writeResponse status body w =
     (case WriteHeader status w of
        (Panicked p, w') \<Rightarrow> (Panicked p, w')
      | (Returned u, w') \<Rightarrow> Write body w')"

text \<open>
  \<^verbatim>\<open>httprouter.Handle\<close>, \<^verbatim>\<open>func(w, r, params)\<close>: the entries of the dispatch table.
\<close>

type_synonym ('r, 's) Handle = "'r \<Rightarrow> (string \<times> string) list \<Rightarrow> 's \<Rightarrow> unit outcome \<times> 's"

text \<open>
  Lines 140 to 144 of httpHandlerWrap: the error's resolver when the handler returned an
  error, the value's resolver when it returned \<^verbatim>\<open>nil\<close> for the error.
\<close>

definition resolveReturn ::
  "('a \<Rightarrow> bytes option) \<Rightarrow> 'a val \<Rightarrow> error option \<Rightarrow> int \<times> bytes \<times> string" where
  "resolveReturn marshal resp err =
     (case err of
        Some e \<Rightarrow> errorOrOtherToBytes e
      | None \<Rightarrow> responseOrOtherToBytes marshal resp)"

text \<open>
  httpHandlerWrap. The context is \<^verbatim>\<open>w\<close>'s header map with the route's parameters; the
  logger, the request id and the scope act on the log alone and are left out. A panic
  of \<^verbatim>\<open>inner\<close> is not recovered here: nothing more is written. Neither is a panic of
  the writer.
\<close>

definition httpHandlerWrap ::
  "('a \<Rightarrow> bytes option) \<Rightarrow> ('r, ('w, 'z) exchange_scheme, 'a) HandlerFunc \<Rightarrow> ('r, ('w, 'z) exchange_scheme) Handle" where
  "httpHandlerWrap marshal inner =
     (\<lambda>r params w.
        case inner r (w\<lparr>Params := params\<rparr>) of
          (Panicked p, w1) \<Rightarrow> (Panicked p, w1)
        | (Returned (resp, err), w1) \<Rightarrow>
            (case resolveReturn marshal resp err of
               (status, body, detectedCType) \<Rightarrow>
                 (let headerCType = Header_Get contentTypeHeaderKey (RespHeaders w1);
                      shouldSetCType = (headerCType = []);
                      w2 = (if shouldSetCType
                            then w1\<lparr>RespHeaders :=
                                   Header_Set contentTypeHeaderKey detectedCType (RespHeaders w1)\<rparr>
                            else w1)
                  in writeResponse status body w2)))"

text \<open>
  wsHandlerWrap. \<open>Upgrade\<close> is the handshake of \<^verbatim>\<open>websocket.Upgrader\<close>: the connection,
  or the error of a failed handshake, and the state it left (it replies on \<^verbatim>\<open>w\<close> itself
  when it fails).
\<close>

definition wsHandlerWrap ::
  "('r \<Rightarrow> 's \<Rightarrow> (error + 'c) \<times> 's) \<Rightarrow> ('r, 's, 'c) WebSocketHandlerFunc \<Rightarrow> ('r, 's, 'a) HandlerFunc" where
  "wsHandlerWrap Upgrade inner =
     (\<lambda>r ctx.
        case Upgrade r ctx of
          (Inl err, ctx') \<Rightarrow>
            (case errorOrOtherToBytes err of
               (status, body, _) \<Rightarrow> (Returned (NilValue, Some (E status body)), ctx'))
        | (Inr conn, ctx') \<Rightarrow>
            (case inner r ctx' conn of
               (Returned err, ctx'') \<Rightarrow> (Returned (NilValue, err), ctx'')
             | (Panicked p, ctx'') \<Rightarrow> (Panicked p, ctx'')))"

subsection \<open>The Router\<close>

text \<open>
  The request, as far as the router reads it: \<^verbatim>\<open>r.Method\<close> and \<^verbatim>\<open>r.URL.Path\<close>.
\<close>

record Request =
  Method :: string
  URLPath :: string

text \<open>
  What \<^verbatim>\<open>group.httpRouteHandlers()\<close> lists: a method, a path and a handler.
\<close>

datatype ('r, 's, 'a) RouteHandler =
  RouteHandler (route_Method: string) (route_Path: string) (route_Handler: "('r, 's, 'a) HandlerFunc")

text \<open>
  The Router. \<open>hrouter\<close> is the matcher of \<^verbatim>\<open>httprouter\<close>, of a type \<^typ>\<open>'t\<close> the router
  only passes to the matcher's own operations; \<open>fallbackProxy\<close> is \<open>None\<close> for \<^verbatim>\<open>nil\<close>;
  \<open>finalizeOnce\<close> is the \<^verbatim>\<open>sync.Once\<close>, true once its \<^verbatim>\<open>Do\<close> has run.
\<close>

record ('g, 't, 'p, 'l) Router =
  RouteGroup :: 'g
  hrouter :: 't
  fallbackProxy :: "'p option"
  quietRoutes :: "string \<rightharpoonup> bool"
  finalizeOnce :: bool
  log :: 'l

text \<open>
  \<^verbatim>\<open>url.Parse\<close> of net/url returns a \<^verbatim>\<open>nil\<close> URL (here \<open>None\<close>) exactly when it returns
  an error. It is lenient. On a string with no control byte (a byte below 32, or 127) and
  none of the characters \<^verbatim>\<open># ? : / %\<close> it finds no fragment, no scheme, no query, no
  authority and no escape, and returns a URL with the string as its path and no scheme,
  host or query, whatever else the string holds; the empty string gives the empty URL.
  What it does on any other string is left to \<open>parseRest\<close>. Of the fields of
  \<^verbatim>\<open>url.URL\<close> the record has those the examples read.
\<close>

record URL =
  Scheme :: string
  Opaque :: string
  Host :: string
  Path :: string
  RawQuery :: string
  Fragment :: string

definition stringContainsCTLByte :: "string \<Rightarrow> bool" where
  "stringContainsCTLByte s = list_ex (\<lambda>c. (of_char c :: nat) < 32 \<or> (of_char c :: nat) = 127) s"

definition plainPath :: "string \<Rightarrow> bool" where
  "plainPath s = (\<not> stringContainsCTLByte s \<and> \<not> list_ex (\<lambda>c. c \<in> set ''#?:/%'') s)"

definition url_Parse :: "(string \<Rightarrow> URL option) \<Rightarrow> string \<Rightarrow> URL option" where
  "url_Parse parseRest rawURL =
     (if plainPath rawURL
      then Some \<lparr>Scheme = [], Opaque = [], Host = [], Path = rawURL, RawQuery = [], Fragment = []\<rparr>
      else parseRest rawURL)"



text \<open>
  NewRouter. \<open>NewSingleHostReverseProxy\<close>, \<open>Group\<close> and \<open>httprouter_New\<close> are the
  constructors the source calls.
\<close>

definition NewRouter ::
  "(string \<Rightarrow> URL option) \<Rightarrow> (URL \<Rightarrow> 'p) \<Rightarrow> (string \<Rightarrow> 'g) \<Rightarrow> 't \<Rightarrow> 'l \<Rightarrow> string \<Rightarrow> ('g, 't, 'p, 'l) Router" where
  "NewRouter parseRest NewSingleHostReverseProxy Group httprouter_New logger fallback =
     (let proxy =
        (if fallback \<noteq> [] then
           (case url_Parse parseRest fallback of
              Some proxyURL \<Rightarrow> Some (NewSingleHostReverseProxy proxyURL)
            | None \<Rightarrow> None)
         else None)
      in \<lparr>RouteGroup = Group [], hrouter = httprouter_New, fallbackProxy = proxy,
          quietRoutes = Map.empty, finalizeOnce = False, log = logger\<rparr>)"

text \<open>
  HandleHTTP registers a plain handler with the matcher, whenever it is called.
  \<open>hr_Handle\<close> is \<^verbatim>\<open>httprouter.Router.Handle\<close>.
\<close>

definition HandleHTTP ::
  "(string \<Rightarrow> string \<Rightarrow> ('r, 's) Handle \<Rightarrow> 't \<Rightarrow> 't) \<Rightarrow> string \<Rightarrow> string \<Rightarrow> ('r \<Rightarrow> 's \<Rightarrow> unit outcome \<times> 's) \<Rightarrow>
     ('g, 't, 'p, 'l) Router \<Rightarrow> ('g, 't, 'p, 'l) Router" where
  "HandleHTTP hr_Handle method path handler rt =
     rt\<lparr>hrouter := hr_Handle method path (\<lambda>r params w. handler r w) (hrouter rt)\<rparr>"

definition mountGroup ::
  "(string \<Rightarrow> string \<Rightarrow> ('r, ('w, 'z) exchange_scheme) Handle \<Rightarrow> 't \<Rightarrow> 't) \<Rightarrow>
     ('g \<Rightarrow> ('r, ('w, 'z) exchange_scheme, 'a) RouteHandler list) \<Rightarrow> ('a \<Rightarrow> bytes option) \<Rightarrow>
     ('g, 't, 'p, 'l) Router \<Rightarrow> 'g \<Rightarrow> ('g, 't, 'p, 'l) Router" where
  "mountGroup hr_Handle httpRouteHandlers marshal rt grp =
     foldl
       (\<lambda>rt' rh. rt'\<lparr>hrouter :=
          hr_Handle (route_Method rh) (route_Path rh) (httpHandlerWrap marshal (route_Handler rh))
            (hrouter rt')\<rparr>)
       rt (httpRouteHandlers grp)"

text \<open>
  Finalize: \<^verbatim>\<open>rt.finalizeOnce.Do(...)\<close> runs its function on the first call and marks
  the \<^verbatim>\<open>Once\<close> done; every later call returns at once.
\<close>

definition Finalize ::
  "(string \<Rightarrow> string \<Rightarrow> ('r, ('w, 'z) exchange_scheme) Handle \<Rightarrow> 't \<Rightarrow> 't) \<Rightarrow>
     ('g \<Rightarrow> ('r, ('w, 'z) exchange_scheme, 'a) RouteHandler list) \<Rightarrow> ('a \<Rightarrow> bytes option) \<Rightarrow>
     ('g, 't, 'p, 'l) Router \<Rightarrow> ('g, 't, 'p, 'l) Router" where
  "Finalize hr_Handle httpRouteHandlers marshal rt =
     (if finalizeOnce rt then rt
      else (mountGroup hr_Handle httpRouteHandlers marshal rt (RouteGroup rt))\<lparr>finalizeOnce := True\<rparr>)"

text \<open>
  ServeHTTP. \<open>hr_Lookup\<close> is the matcher's \<^verbatim>\<open>Lookup\<close>, \<open>None\<close> when the handle it returns
  is \<^verbatim>\<open>nil\<close>; \<open>hr_ServeHTTP\<close> is the matcher's own \<^verbatim>\<open>ServeHTTP\<close> and \<open>proxy_ServeHTTP\<close>
  the reverse proxy's.
\<close>

definition ServeHTTP ::
  "('t \<Rightarrow> string \<Rightarrow> string \<Rightarrow> (('y Request_scheme, 's) Handle \<times> (string \<times> string) list) option) \<Rightarrow>
     ('t \<Rightarrow> 'y Request_scheme \<Rightarrow> 's \<Rightarrow> unit outcome \<times> 's) \<Rightarrow>
     ('p \<Rightarrow> 'y Request_scheme \<Rightarrow> 's \<Rightarrow> unit outcome \<times> 's) \<Rightarrow>
     ('g, 't, 'p, 'l) Router \<Rightarrow> 'y Request_scheme \<Rightarrow> 's \<Rightarrow> unit outcome \<times> 's" where
  "ServeHTTP hr_Lookup hr_ServeHTTP proxy_ServeHTTP rt r w =
     (case hr_Lookup (hrouter rt) (Method r) (URLPath r) of
        Some (handler, params) \<Rightarrow> handler r params w
      | None \<Rightarrow>
          (case fallbackProxy rt of
             Some proxy \<Rightarrow> proxy_ServeHTTP proxy r w
           | None \<Rightarrow> hr_ServeHTTP (hrouter rt) r w))"

definition canHandle ::
  "('t \<Rightarrow> string \<Rightarrow> string \<Rightarrow> ('h \<times> (string \<times> string) list) option) \<Rightarrow>
     ('g, 't, 'p, 'l) Router \<Rightarrow> string \<Rightarrow> string \<Rightarrow> bool" where
  "canHandle hr_Lookup rt method path = (hr_Lookup (hrouter rt) method path \<noteq> None)"

section \<open>A matcher of exact paths, for the examples\<close>

text \<open>
  The router treats the matcher as a black box. The examples below run it with the
  simplest one: a list of the registered entries, looked up by equal method and equal
  path, whose own fallthrough answers 405 for a registered path and 404 otherwise.
\<close>

type_synonym 'h table = "(string \<times> string \<times> 'h) list"

definition exact_Handle :: "string \<Rightarrow> string \<Rightarrow> 'h \<Rightarrow> 'h table \<Rightarrow> 'h table" where
  "exact_Handle method path h t = t @ [(method, path, h)]"

fun exact_Lookup :: "'h table \<Rightarrow> string \<Rightarrow> string \<Rightarrow> ('h \<times> (string \<times> string) list) option" where
  "exact_Lookup [] method path = None"
| "exact_Lookup ((m, p, h) # t) method path =
     (if m = method \<and> p = path then Some (h, []) else exact_Lookup t method path)"

definition exact_ServeHTTP ::
  "'h table \<Rightarrow> 'y Request_scheme \<Rightarrow> ('w, 'z) exchange_scheme \<Rightarrow> unit outcome \<times> ('w, 'z) exchange_scheme" where
  "exact_ServeHTTP t r w =
     WriteHeader (if URLPath r \<in> set (map (\<lambda>(m, p, h). p) t) then 405 else 404) w"

section \<open>A writer that records, for the examples\<close>

text \<open>
  A writer in the manner of \<^verbatim>\<open>httptest.ResponseRecorder\<close>. The first \<^verbatim>\<open>WriteHeader\<close>
  panics on a status outside 100..999 and otherwise records the status and the header
  map as it is then; a later one changes nothing. \<^verbatim>\<open>Write\<close> records status 200 first
  when no status is recorded, and appends the bytes.
\<close>

record recorder =
  wroteHeader :: "int option"
  sentHeaders :: Header
  written :: bytes

definition recorder_WriteHeader :: "int \<Rightarrow> Header \<times> recorder \<Rightarrow> unit outcome \<times> Header \<times> recorder" where
  "recorder_WriteHeader code hw =
     (case hw of
        (h, rec) \<Rightarrow>
          (if wroteHeader rec \<noteq> None then (Returned (), h, rec)
           else if code < 100 \<or> 999 < code then (Panicked ''invalid WriteHeader code'', h, rec)
           else (Returned (), h, rec\<lparr>wroteHeader := Some code, sentHeaders := h\<rparr>)))"

definition recorder_Write :: "bytes \<Rightarrow> Header \<times> recorder \<Rightarrow> unit outcome \<times> Header \<times> recorder" where
  "recorder_Write b hw =
     (case recorder_WriteHeader 200 hw of
        (res, h, rec) \<Rightarrow> (Returned (), h, rec\<lparr>written := written rec @ b\<rparr>))"

definition sent :: "int option \<Rightarrow> Header \<Rightarrow> bytes \<Rightarrow> recorder" where
  "sent code h b = \<lparr>wroteHeader = code, sentHeaders = h, written = b\<rparr>"

definition recording :: "Header \<Rightarrow> recorder \<Rightarrow> recorder exchange" where
  "recording h rec =
     \<lparr>RespHeaders = h, Params = [], writer = rec,
      writer_WriteHeader = recorder_WriteHeader, writer_Write = recorder_Write\<rparr>"

definition emptyExchange :: "recorder exchange" where
  "emptyExchange = recording Map.empty (sent None Map.empty [])"

section \<open>Handlers and requests for the examples\<close>








text \<open>
  A router with one route, over the matcher of exact paths; a stand-in for the rest of
  \<^verbatim>\<open>url.Parse\<close> that knows one URL and refuses every other string; a proxy that answers
  with the host of its target, and with 502 when the target has no host; an encoder that fails and one that succeeds; a handshake
  that fails and one that succeeds.
\<close>

definition origin :: URL where
  "origin = \<lparr>Scheme = ''http'', Opaque = [], Host = ''origin'', Path = [], RawQuery = [], Fragment = []\<rparr>"

definition toy_parseRest :: "string \<Rightarrow> URL option" where
  "toy_parseRest s = (if s = ''http://origin'' then Some origin else None)"

definition toy_proxy_ServeHTTP ::
  "URL \<Rightarrow> Request \<Rightarrow> recorder exchange \<Rightarrow> unit outcome \<times> recorder exchange" where
  "toy_proxy_ServeHTTP target r w =
     (if Host target = [] then writeResponse 502 ''Bad Gateway'' w
      else writeResponse 200 (''from '' @ Host target) w)"

definition hello :: "(Request, recorder exchange, unit) HandlerFunc" where
  "hello = (\<lambda>r ctx. (Returned (Bytes ''hi'', None), ctx))"

definition hello_routes :: "unit \<Rightarrow> (Request, recorder exchange, unit) RouteHandler list" where
  "hello_routes g = [RouteHandler ''GET'' ''/hello'' hello]"

definition no_json :: "unit \<Rightarrow> bytes option" where
  "no_json x = None"

definition hello_router :: "string \<Rightarrow> (unit, (Request, recorder exchange) Handle table, URL, unit) Router" where
  "hello_router fallback =
     Finalize exact_Handle hello_routes no_json
       (NewRouter toy_parseRest (\<lambda>u. u) (\<lambda>prefix. ()) [] () fallback)"

definition late :: "Request \<Rightarrow> recorder exchange \<Rightarrow> unit outcome \<times> recorder exchange" where
  "late = (\<lambda>r w. Write ''late'' w)"

definition GET :: "string \<Rightarrow> Request" where
  "GET path = \<lparr>Method = ''GET'', URLPath = path\<rparr>"

definition unit_json :: "unit \<Rightarrow> bytes option" where
  "unit_json x = Some ''{}''"

definition returns_struct :: "(Request, recorder exchange, unit) HandlerFunc" where
  "returns_struct = (\<lambda>r ctx. (Returned (Struct (), None), ctx))"

definition refuses :: "Request \<Rightarrow> recorder exchange \<Rightarrow> (error + unit) \<times> recorder exchange" where
  "refuses r w = (Inl (VkError 400 ''Bad Request''), snd (WriteHeader 400 w))"

definition accepts :: "Request \<Rightarrow> recorder exchange \<Rightarrow> (error + unit) \<times> recorder exchange" where
  "accepts r w = (Inr (), snd (WriteHeader 101 w))"

text \<open>Handlers that return a typed error with status 0 and a typed response with content type.\<close>

definition returns_E0 :: "(Request, recorder exchange, unit) HandlerFunc" where
  "returns_E0 = (\<lambda>r ctx. (Returned (NilValue, Some (E 0 ''unset'')), ctx))"

definition ws_fails :: "(Request, recorder exchange, unit) WebSocketHandlerFunc" where
  "ws_fails = (\<lambda>r ctx conn. (Returned (Some (GenericError ''read failed'')), ctx))"

section \<open>The loops of the composed handlers\<close>


lemma runAfterware_panics:
  "allReturn aws r c = None \<Longrightarrow> \<exists>p. fst (runAfterware i aws r c) = Panicked p"
proof (induction aws arbitrary: i c)
  case Nil
  then show ?case by simp
next
  case (Cons a aws)
  obtain res c1 where a: "a r c = (res, c1)" by (cases "a r c")
  show ?case
  proof (cases res)
    case (Panicked p)
    with a show ?thesis by simp
  next
    case (Returned u)
    with a Cons.prems have "allReturn aws r c1 = None" by simp
    from Cons.IH [OF this, of "Suc i"] a Returned show ?thesis
      by (simp add: split_beta)
  qed
qed














section \<open>The middleware chain\<close>







section \<open>The response\<close>

text \<open>
  Claim C3, as amended. When the handler returns a \<^verbatim>\<open>nil\<close> error, the response is
  resolved from the value: a typed response gives its own status (200 when unset), body
  and content type (none detected when it has none); bytes give status 200, the bytes as
  body and no detected content type; any other value that has a JSON encoding gives
  status 200, that encoding and \<^verbatim>\<open>application/json\<close>, and one that has none gives
  status 500 with the generic message; \<^verbatim>\<open>nil\<close> gives status 200 and an empty body.
  httpHandlerWrap hands that status and that body to the writer.
\<close>

theorem resolve_value:
  "resolveReturn marshal (Typed resp) None =
     (if resp_status resp = 0 then 200 else resp_status resp, resp_body resp,
      case resp_contentType resp of Some ctype \<Rightarrow> ctype | None \<Rightarrow> [])
   \<and> resolveReturn marshal (Bytes b) None = (200, b, [])
   \<and> (marshal x = Some json \<longrightarrow>
        resolveReturn marshal (Struct x) None = (200, json, ''application/json''))
   \<and> (marshal x = None \<longrightarrow>
        resolveReturn marshal (Struct x) None = (500, genericErrorResponseBytes, ''text/plain''))
   \<and> resolveReturn marshal NilValue None = (200, [], [])
   \<and> (inner r (w\<lparr>Params := params\<rparr>) = (Returned (v, None), w1) \<and>
        responseOrOtherToBytes marshal v = (status, body, ctype) \<longrightarrow>
        httpHandlerWrap marshal inner r params w =
          writeResponse status body
            (if Header_Get contentTypeHeaderKey (RespHeaders w1) = []
             then w1\<lparr>RespHeaders := Header_Set contentTypeHeaderKey ctype (RespHeaders w1)\<rparr>
             else w1))"
  by (simp add: resolveReturn_def responseOrOtherToBytes_def httpHandlerWrap_def Let_def)

theorem resolve_value_witness:
  "unit_json () = Some ''{}'' \<and>
   resolveReturn unit_json (Struct ()) None = (200, ''{}'', ''application/json'') \<and>
   no_json () = None \<and>
   resolveReturn no_json (Struct ()) None = (500, ''Internal Server Error'', ''text/plain'') \<and>
   resolveReturn unit_json (Typed (TypedResponse 0 ''made'' None)) None = (200, ''made'', []) \<and>
   resolveReturn unit_json (Typed (TypedResponse 201 ''made'' (Some ''text/plain''))) None =
     (201, ''made'', ''text/plain'') \<and>
   responseOrOtherToBytes unit_json NilValue = (200, [], []) \<and>
   httpHandlerWrap unit_json (\<lambda>r ctx. (Returned (NilValue, None), ctx)) (GET ''/'') [] emptyExchange =
     (Returned (),
      recording [''Content-Type'' \<mapsto> [[]]] (sent (Some 200) [''Content-Type'' \<mapsto> [[]]] []))"
  using resolve_value [where marshal = unit_json and x = "()" and json = "''{}''"
      and resp = "TypedResponse 0 ''made'' None" and inner = "\<lambda>r ctx. (Returned (NilValue, None), ctx)"
      and r = "GET ''/''" and params = "[]" and w = emptyExchange and v = NilValue and ?w1.0 = emptyExchange
      and status = 200 and body = "[]" and ctype = "[]"]
    resolve_value [where marshal = no_json and x = "()"]
  by (simp add: unit_json_def no_json_def resolveReturn_def responseOrOtherToBytes_def httpHandlerWrap_def
      writeResponse_def Write_def WriteHeader_def emptyExchange_def recording_def sent_def
      recorder_Write_def recorder_WriteHeader_def genericErrorResponseBytes_def
      Header_Get_def Header_Set_def contentTypeHeaderKey_def)

text \<open>
  Claim C3, as stated, gives status 200 and a JSON body for every other value. A value
  the encoder fails on is answered with status 500 and the generic message.
\<close>

theorem struct_without_json:
  "resolveReturn no_json (Struct ()) None = (500, ''Internal Server Error'', ''text/plain'') \<and>
   httpHandlerWrap no_json returns_struct (GET ''/'') [] emptyExchange =
     (Returned (),
      recording [''Content-Type'' \<mapsto> [''text/plain'']]
        (sent (Some 500) [''Content-Type'' \<mapsto> [''text/plain'']] ''Internal Server Error''))"
  by (simp add: no_json_def returns_struct_def resolveReturn_def responseOrOtherToBytes_def httpHandlerWrap_def
      writeResponse_def Write_def WriteHeader_def emptyExchange_def recording_def sent_def
      recorder_Write_def recorder_WriteHeader_def genericErrorResponseBytes_def
      Header_Get_def Header_Set_def contentTypeHeaderKey_def)

lemma WriteHeader_headers:
  "\<forall>code hw. fst (snd (writer_WriteHeader w code hw)) = fst hw \<Longrightarrow>
   RespHeaders (snd (WriteHeader code w)) = RespHeaders w \<and>
   writer_Write (snd (WriteHeader code w)) = writer_Write w"
  by (simp add: WriteHeader_def split_beta)

lemma Write_headers:
  "\<forall>b hw. fst (snd (writer_Write w b hw)) = fst hw \<Longrightarrow>
   RespHeaders (snd (Write b w)) = RespHeaders w"
  by (simp add: Write_def split_beta)

lemma writeResponse_headers:
  assumes "\<forall>code hw. fst (snd (writer_WriteHeader w code hw)) = fst hw"
    and "\<forall>b hw. fst (snd (writer_Write w b hw)) = fst hw"
  shows "RespHeaders (snd (writeResponse status body w)) = RespHeaders w"
proof -
  obtain res w' where wh: "WriteHeader status w = (res, w')" by (cases "WriteHeader status w")
  from WriteHeader_headers [OF assms(1), of status] wh
  have h: "RespHeaders w' = RespHeaders w" and wr: "writer_Write w' = writer_Write w" by simp_all
  show ?thesis
  proof (cases res)
    case (Panicked p)
    with wh h show ?thesis by (simp add: writeResponse_def)
  next
    case (Returned u)
    from assms(2) wr have "\<forall>b hw. fst (snd (writer_Write w' b hw)) = fst hw" by simp
    from Write_headers [OF this, of body] h wh Returned show ?thesis
      by (simp add: writeResponse_def)
  qed
qed

text \<open>
  Claim C4. When the handler chain has returned, the response is written with the header
  map the chain left if its \<^verbatim>\<open>Content-Type\<close> is not empty, the detected content type
  being dropped, and with the detected type set in it only if the header is empty then.
  That map is the one \<^verbatim>\<open>WriteHeader\<close> and \<^verbatim>\<open>Write\<close> are called on, and with a writer
  that leaves the header map alone it is the header map at the end, also when the writer
  panics on the status.
\<close>

theorem content_type_precedence:
  "inner r (w\<lparr>Params := params\<rparr>) = (Returned (resp, err), w1) \<and>
   resolveReturn marshal resp err = (status, body, detectedCType) \<longrightarrow>
     httpHandlerWrap marshal inner r params w =
       writeResponse status body
         (w1\<lparr>RespHeaders :=
            if Header_Get contentTypeHeaderKey (RespHeaders w1) \<noteq> [] then RespHeaders w1
            else Header_Set contentTypeHeaderKey detectedCType (RespHeaders w1)\<rparr>) \<and>
     Header_Get contentTypeHeaderKey
         (if Header_Get contentTypeHeaderKey (RespHeaders w1) \<noteq> [] then RespHeaders w1
          else Header_Set contentTypeHeaderKey detectedCType (RespHeaders w1)) =
       (if Header_Get contentTypeHeaderKey (RespHeaders w1) \<noteq> []
        then Header_Get contentTypeHeaderKey (RespHeaders w1)
        else detectedCType) \<and>
     ((\<forall>code hw. fst (snd (writer_WriteHeader w1 code hw)) = fst hw) \<and>
      (\<forall>b hw. fst (snd (writer_Write w1 b hw)) = fst hw) \<longrightarrow>
        RespHeaders (snd (httpHandlerWrap marshal inner r params w)) =
          (if Header_Get contentTypeHeaderKey (RespHeaders w1) \<noteq> [] then RespHeaders w1
           else Header_Set contentTypeHeaderKey detectedCType (RespHeaders w1)))"
proof (intro impI)
  assume h: "inner r (w\<lparr>Params := params\<rparr>) = (Returned (resp, err), w1) \<and>
   resolveReturn marshal resp err = (status, body, detectedCType)"
  let ?h = "if Header_Get contentTypeHeaderKey (RespHeaders w1) \<noteq> [] then RespHeaders w1
            else Header_Set contentTypeHeaderKey detectedCType (RespHeaders w1)"
  have eq: "httpHandlerWrap marshal inner r params w = writeResponse status body (w1\<lparr>RespHeaders := ?h\<rparr>)"
    using h by (simp add: httpHandlerWrap_def Let_def)
  have get: "Header_Get contentTypeHeaderKey ?h =
       (if Header_Get contentTypeHeaderKey (RespHeaders w1) \<noteq> []
        then Header_Get contentTypeHeaderKey (RespHeaders w1)
        else detectedCType)"
    by (simp add: Header_Get_def Header_Set_def)
  have fin: "RespHeaders (snd (httpHandlerWrap marshal inner r params w)) = ?h"
    if "(\<forall>code hw. fst (snd (writer_WriteHeader w1 code hw)) = fst hw) \<and>
        (\<forall>b hw. fst (snd (writer_Write w1 b hw)) = fst hw)"
    using writeResponse_headers [of "w1\<lparr>RespHeaders := ?h\<rparr>" status body] that
    by (simp add: eq)
  from eq get fin show "httpHandlerWrap marshal inner r params w =
       writeResponse status body (w1\<lparr>RespHeaders := ?h\<rparr>) \<and>
     Header_Get contentTypeHeaderKey ?h =
       (if Header_Get contentTypeHeaderKey (RespHeaders w1) \<noteq> []
        then Header_Get contentTypeHeaderKey (RespHeaders w1)
        else detectedCType) \<and>
     ((\<forall>code hw. fst (snd (writer_WriteHeader w1 code hw)) = fst hw) \<and>
      (\<forall>b hw. fst (snd (writer_Write w1 b hw)) = fst hw) \<longrightarrow>
        RespHeaders (snd (httpHandlerWrap marshal inner r params w)) = ?h)"
    by blast
qed

lemma recorder_keeps_headers:
  "fst (snd (recorder_WriteHeader code hw)) = fst hw \<and> fst (snd (recorder_Write b hw)) = fst hw"
  by (cases hw) (simp add: recorder_WriteHeader_def recorder_Write_def split_beta)

theorem content_type_precedence_witness:
  "ContentTypeMiddleware ''text/html'' returns_struct (GET ''/'') (emptyExchange\<lparr>Params := []\<rparr>) =
     (Returned (Struct (), None), recording [''Content-Type'' \<mapsto> [''text/html'']] (sent None Map.empty [])) \<and>
   resolveReturn unit_json (Struct ()) None = (200, ''{}'', ''application/json'') \<and>
   (\<forall>code hw. fst (snd (recorder_WriteHeader code hw)) = fst hw) \<and>
   (\<forall>b hw. fst (snd (recorder_Write b hw)) = fst hw) \<and>
   httpHandlerWrap unit_json (ContentTypeMiddleware ''text/html'' returns_struct) (GET ''/'') [] emptyExchange =
     (Returned (),
      recording [''Content-Type'' \<mapsto> [''text/html'']]
        (sent (Some 200) [''Content-Type'' \<mapsto> [''text/html'']] ''{}'')) \<and>
   httpHandlerWrap unit_json returns_struct (GET ''/'') [] emptyExchange =
     (Returned (),
      recording [''Content-Type'' \<mapsto> [''application/json'']]
        (sent (Some 200) [''Content-Type'' \<mapsto> [''application/json'']] ''{}'')) \<and>
   returns_E0 (GET ''/'') (emptyExchange\<lparr>Params := []\<rparr>) = (Returned (NilValue, Some (E 0 ''unset'')), emptyExchange) \<and>
   resolveReturn unit_json NilValue (Some (E 0 ''unset'')) = (0, ''unset'', ''text/plain'') \<and>
   httpHandlerWrap unit_json returns_E0 (GET ''/'') [] emptyExchange =
     (Panicked ''invalid WriteHeader code'',
      recording [''Content-Type'' \<mapsto> [''text/plain'']] (sent None Map.empty []))"
  using content_type_precedence [where inner = "ContentTypeMiddleware ''text/html'' returns_struct"
      and r = "GET ''/''" and w = emptyExchange and params = "[]" and resp = "Struct ()" and err = None
      and ?w1.0 = "recording [''Content-Type'' \<mapsto> [''text/html'']] (sent None Map.empty [])"
      and marshal = unit_json and status = 200 and body = "''{}''" and detectedCType = "''application/json''"]
    content_type_precedence [where inner = returns_E0
      and r = "GET ''/''" and w = emptyExchange and params = "[]" and resp = NilValue and err = "Some (E 0 ''unset'')"
      and ?w1.0 = emptyExchange
      and marshal = unit_json and status = 0 and body = "''unset''" and detectedCType = "''text/plain''"]
    recorder_keeps_headers
  by (simp add: ContentTypeMiddleware_def returns_struct_def returns_E0_def unit_json_def resolveReturn_def
      responseOrOtherToBytes_def errorOrOtherToBytes_def E_def httpHandlerWrap_def
      writeResponse_def Write_def WriteHeader_def emptyExchange_def recording_def sent_def
      recorder_Write_def recorder_WriteHeader_def
      Header_Get_def Header_Set_def contentTypeHeaderKey_def)

section \<open>The router\<close>

lemma mount_fold_fields:
  "finalizeOnce (foldl (\<lambda>rt' rh. rt'\<lparr>hrouter := f rh (hrouter rt')\<rparr>) rt rhs) = finalizeOnce rt \<and>
   fallbackProxy (foldl (\<lambda>rt' rh. rt'\<lparr>hrouter := f rh (hrouter rt')\<rparr>) rt rhs) = fallbackProxy rt \<and>
   RouteGroup (foldl (\<lambda>rt' rh. rt'\<lparr>hrouter := f rh (hrouter rt')\<rparr>) rt rhs) = RouteGroup rt"
  by (induction rhs arbitrary: rt) simp_all

lemma mountGroup_fields:
  "finalizeOnce (mountGroup H G M rt g) = finalizeOnce rt \<and>
   fallbackProxy (mountGroup H G M rt g) = fallbackProxy rt \<and>
   RouteGroup (mountGroup H G M rt g) = RouteGroup rt"
  unfolding mountGroup_def
  by (rule mount_fold_fields
      [where f = "\<lambda>rh. H (route_Method rh) (route_Path rh) (httpHandlerWrap M (route_Handler rh))"])

lemma Finalize_done: "finalizeOnce (Finalize H G M rt)"
  by (simp add: Finalize_def mountGroup_fields)

lemma Finalize_again: "finalizeOnce rt \<Longrightarrow> Finalize H G M rt = rt"
  by (simp add: Finalize_def)

lemma Finalize_funpow: "(Finalize H G M ^^ Suc n) rt = Finalize H G M rt"
  by (induction n) (simp_all add: Finalize_again Finalize_done)


lemma plainPath_examples:
  "plainPath ''not a url'' \<and> \<not> plainPath ''http://origin'' \<and> \<not> plainPath ''http://bad host'' \<and> plainPath []"
  by (simp add: plainPath_def stringContainsCTLByte_def)

lemma hello_router_simps:
  "hello_router [] =
     \<lparr>RouteGroup = (), hrouter = [(''GET'', ''/hello'', httpHandlerWrap no_json hello)], fallbackProxy = None,
      quietRoutes = Map.empty, finalizeOnce = True, log = ()\<rparr>"
  "hello_router ''http://origin'' =
     \<lparr>RouteGroup = (), hrouter = [(''GET'', ''/hello'', httpHandlerWrap no_json hello)],
      fallbackProxy = Some origin, quietRoutes = Map.empty, finalizeOnce = True, log = ()\<rparr>"
  "hello_router ''http://bad host'' =
     \<lparr>RouteGroup = (), hrouter = [(''GET'', ''/hello'', httpHandlerWrap no_json hello)], fallbackProxy = None,
      quietRoutes = Map.empty, finalizeOnce = True, log = ()\<rparr>"
  "hello_router ''not a url'' =
     \<lparr>RouteGroup = (), hrouter = [(''GET'', ''/hello'', httpHandlerWrap no_json hello)],
      fallbackProxy =
        Some \<lparr>Scheme = [], Opaque = [], Host = [], Path = ''not a url'', RawQuery = [], Fragment = []\<rparr>,
      quietRoutes = Map.empty, finalizeOnce = True, log = ()\<rparr>"
  using plainPath_examples
  by (simp_all add: hello_router_def Finalize_def mountGroup_def NewRouter_def hello_routes_def
      exact_Handle_def url_Parse_def toy_parseRest_def)

text \<open>
  Claim C5, as amended. Finalize any number of times, at least once, leaves the router,
  and with it the dispatch table, as one Finalize does. Only a call on a router not yet
  finalized mounts the root group; a call on a finalized router changes nothing, also
  when the root group has changed since.
\<close>

theorem Finalize_idempotent:
  "(0 < N \<longrightarrow> (Finalize H G M ^^ N) rt = Finalize H G M rt)
   \<and> finalizeOnce (Finalize H G M rt)
   \<and> (finalizeOnce rt \<longrightarrow> Finalize H G M rt = rt)
   \<and> (\<not> finalizeOnce rt \<longrightarrow>
        hrouter (Finalize H G M rt) = hrouter (mountGroup H G M rt (RouteGroup rt)))
   \<and> hrouter (Finalize H G' M' ((Finalize H G M rt)\<lparr>RouteGroup := g'\<rparr>)) = hrouter (Finalize H G M rt)"
proof (intro conjI impI)
  assume "0 < N"
  then obtain n where "N = Suc n" by (cases N) auto
  then show "(Finalize H G M ^^ N) rt = Finalize H G M rt"
    by (simp only: Finalize_funpow)
next
  show "finalizeOnce (Finalize H G M rt)" by (rule Finalize_done)
next
  assume "finalizeOnce rt"
  then show "Finalize H G M rt = rt" by (rule Finalize_again)
next
  assume "\<not> finalizeOnce rt"
  then show "hrouter (Finalize H G M rt) = hrouter (mountGroup H G M rt (RouteGroup rt))"
    by (simp add: Finalize_def)
next
  have "finalizeOnce ((Finalize H G M rt)\<lparr>RouteGroup := g'\<rparr>)"
    by (simp add: Finalize_done)
  then show "hrouter (Finalize H G' M' ((Finalize H G M rt)\<lparr>RouteGroup := g'\<rparr>)) = hrouter (Finalize H G M rt)"
    by (simp add: Finalize_again)
qed

theorem Finalize_idempotent_witness:
  "(0::nat) < 3 \<and>
   (Finalize exact_Handle hello_routes no_json ^^ 3) (NewRouter toy_parseRest (\<lambda>u. u) (\<lambda>prefix. ()) [] () []) =
     hello_router [] \<and>
   finalizeOnce (hello_router []) \<and>
   Finalize exact_Handle hello_routes no_json (hello_router []) = hello_router [] \<and>
   \<not> finalizeOnce (NewRouter toy_parseRest (\<lambda>u. u) (\<lambda>prefix. ())
        ([] :: (Request, recorder exchange) Handle table) () []) \<and>
   hrouter (hello_router []) = [(''GET'', ''/hello'', httpHandlerWrap no_json hello)]"
  using Finalize_idempotent [where N = 3 and H = exact_Handle and G = hello_routes and M = no_json
      and rt = "NewRouter toy_parseRest (\<lambda>u. u) (\<lambda>prefix. ()) [] () []"]
    Finalize_idempotent [where H = exact_Handle and G = hello_routes and M = no_json
      and rt = "hello_router []"]
  by (simp add: hello_router_def Finalize_def mountGroup_def NewRouter_def hello_routes_def exact_Handle_def)

text \<open>
  Claim C5, as stated, says that the dispatch table never changes after finalization.
  HandleHTTP registers its handler with the matcher whenever it is called: on a
  finalized router the path \<^verbatim>\<open>/late\<close> has no handler before the call and has one after.
\<close>

theorem table_changes_after_Finalize:
  "finalizeOnce (hello_router []) \<and>
   \<not> canHandle exact_Lookup (hello_router []) ''GET'' ''/late'' \<and>
   canHandle exact_Lookup (HandleHTTP exact_Handle ''GET'' ''/late'' late (hello_router [])) ''GET'' ''/late'' \<and>
   hrouter (HandleHTTP exact_Handle ''GET'' ''/late'' late (hello_router [])) \<noteq> hrouter (hello_router [])"
  by (simp add: hello_router_def Finalize_def mountGroup_def NewRouter_def hello_routes_def
      exact_Handle_def HandleHTTP_def canHandle_def)

text \<open>
  Claim C6. ServeHTTP looks the request's method and path up in the matcher. On a hit it
  calls the handler found; on a miss it calls the fallback proxy when there is one, and
  the matcher's own ServeHTTP otherwise.
\<close>

theorem ServeHTTP_dispatch:
  "(hr_Lookup (hrouter rt) (Method r) (URLPath r) = Some (handler, params) \<longrightarrow>
      ServeHTTP hr_Lookup hr_ServeHTTP proxy_ServeHTTP rt r w = handler r params w)
   \<and> (hr_Lookup (hrouter rt) (Method r) (URLPath r) = None \<and> fallbackProxy rt = Some proxy \<longrightarrow>
      ServeHTTP hr_Lookup hr_ServeHTTP proxy_ServeHTTP rt r w = proxy_ServeHTTP proxy r w)
   \<and> (hr_Lookup (hrouter rt) (Method r) (URLPath r) = None \<and> fallbackProxy rt = None \<longrightarrow>
      ServeHTTP hr_Lookup hr_ServeHTTP proxy_ServeHTTP rt r w = hr_ServeHTTP (hrouter rt) r w)"
  by (simp add: ServeHTTP_def)

theorem ServeHTTP_dispatch_witness:
  "exact_Lookup (hrouter (hello_router [])) (Method (GET ''/hello'')) (URLPath (GET ''/hello'')) =
     Some (httpHandlerWrap no_json hello, []) \<and>
   ServeHTTP exact_Lookup exact_ServeHTTP toy_proxy_ServeHTTP (hello_router []) (GET ''/hello'') emptyExchange =
     (Returned (),
      recording [''Content-Type'' \<mapsto> [[]]] (sent (Some 200) [''Content-Type'' \<mapsto> [[]]] ''hi'')) \<and>
   exact_Lookup (hrouter (hello_router ''http://origin'')) (Method (GET ''/other'')) (URLPath (GET ''/other'')) = None \<and>
   fallbackProxy (hello_router ''http://origin'') = Some origin \<and>
   ServeHTTP exact_Lookup exact_ServeHTTP toy_proxy_ServeHTTP (hello_router ''http://origin'') (GET ''/other'')
       emptyExchange =
     (Returned (), recording Map.empty (sent (Some 200) Map.empty ''from origin'')) \<and>
   fallbackProxy (hello_router []) = None \<and>
   ServeHTTP exact_Lookup exact_ServeHTTP toy_proxy_ServeHTTP (hello_router []) (GET ''/other'') emptyExchange =
     (Returned (), recording Map.empty (sent (Some 404) Map.empty [])) \<and>
   ServeHTTP exact_Lookup exact_ServeHTTP toy_proxy_ServeHTTP (hello_router [])
       \<lparr>Method = ''POST'', URLPath = ''/hello''\<rparr> emptyExchange =
     (Returned (), recording Map.empty (sent (Some 405) Map.empty []))"
  using ServeHTTP_dispatch [where hr_Lookup = exact_Lookup and rt = "hello_router []" and r = "GET ''/hello''"
      and handler = "httpHandlerWrap no_json hello" and params = "[]" and hr_ServeHTTP = exact_ServeHTTP
      and proxy_ServeHTTP = toy_proxy_ServeHTTP and w = emptyExchange]
    ServeHTTP_dispatch [where hr_Lookup = exact_Lookup and rt = "hello_router ''http://origin''"
      and r = "GET ''/other''" and proxy = origin and hr_ServeHTTP = exact_ServeHTTP
      and proxy_ServeHTTP = toy_proxy_ServeHTTP and w = emptyExchange]
    ServeHTTP_dispatch [where hr_Lookup = exact_Lookup and rt = "hello_router []"
      and r = "GET ''/other''" and hr_ServeHTTP = exact_ServeHTTP
      and proxy_ServeHTTP = toy_proxy_ServeHTTP and w = emptyExchange]
  by (simp add: hello_router_simps GET_def origin_def ServeHTTP_def exact_ServeHTTP_def
      toy_proxy_ServeHTTP_def httpHandlerWrap_def
      hello_def resolveReturn_def responseOrOtherToBytes_def writeResponse_def Write_def WriteHeader_def
      emptyExchange_def recording_def sent_def recorder_Write_def recorder_WriteHeader_def
      Header_Get_def Header_Set_def contentTypeHeaderKey_def)




section \<open>CORS, websockets and WrapHandler\<close>

text \<open>
  Claim C8. With the domain \<^verbatim>\<open>*\<close>, enableCors sets \<^verbatim>\<open>Access-Control-Allow-Origin\<close> to
  \<^verbatim>\<open>*\<close>, \<^verbatim>\<open>X-Requested-With\<close> and \<^verbatim>\<open>Access-Control-Allow-Headers\<close>, and leaves the other
  headers; with any domain that is not empty the origin allowed is the domain; with the
  empty domain it changes nothing. CORSMiddleware does so before it calls the inner
  handler, CORSHandler does so and returns \<^verbatim>\<open>nil, nil\<close>.
\<close>

theorem cors_headers:
  "RespHeaders (enableCors ctx ''*'') =
     (RespHeaders ctx)
       (''Access-Control-Allow-Origin'' \<mapsto> [''*''],
        ''X-Requested-With'' \<mapsto> [''XMLHttpRequest''],
        ''Access-Control-Allow-Headers'' \<mapsto>
          [''Accept, Content-Type, Content-Length, Accept-Encoding, Authorization, cache-control''])
   \<and> Header_Get ''Access-Control-Allow-Origin'' (RespHeaders (enableCors ctx ''*'')) = ''*''
   \<and> Header_Get ''Access-Control-Allow-Origin'' (RespHeaders (enableCors ctx domain)) =
       (if domain = [] then Header_Get ''Access-Control-Allow-Origin'' (RespHeaders ctx) else domain)
   \<and> enableCors ctx [] = ctx
   \<and> CORSMiddleware ''*'' inner r ctx = inner r (enableCors ctx ''*'')
   \<and> CORSMiddleware [] inner r ctx = inner r ctx
   \<and> CORSHandler ''*'' r ctx = (Returned (NilValue, None), enableCors ctx ''*'')
   \<and> CORSHandler [] r ctx = (Returned (NilValue, None), ctx)"
  by (simp add: enableCors_def CORSMiddleware_def CORSHandler_def Header_Set_def Header_Get_def)

text \<open>
  Claim C9. When the handshake fails, the handler wsHandlerWrap returns gives the
  \<^verbatim>\<open>nil\<close> value and the typed error \<^verbatim>\<open>E(status, string(body))\<close>, status and body being
  those the error's resolver gives for the handshake's error. When the handshake
  succeeds, it calls the inner handler on the connection and returns the \<^verbatim>\<open>nil\<close>
  value with the error the inner handler returns.
\<close>

theorem wsHandlerWrap_result:
  "(Upgrade r ctx = (Inl uerr, ctx') \<and> errorOrOtherToBytes uerr = (status, body, ctype) \<longrightarrow>
      wsHandlerWrap Upgrade inner r ctx = (Returned (NilValue, Some (E status body)), ctx'))
   \<and> (Upgrade r ctx = (Inr conn, ctx') \<and> inner r ctx' conn = (Returned err, ctx'') \<longrightarrow>
      wsHandlerWrap Upgrade inner r ctx = (Returned (NilValue, err), ctx''))"
  by (simp add: wsHandlerWrap_def)

theorem wsHandlerWrap_result_witness:
  "refuses (GET ''/ws'') emptyExchange =
     (Inl (VkError 400 ''Bad Request''), recording Map.empty (sent (Some 400) Map.empty [])) \<and>
   errorOrOtherToBytes (VkError 400 ''Bad Request'') = (400, ''Bad Request'', ''text/plain'') \<and>
   wsHandlerWrap refuses ws_fails (GET ''/ws'') emptyExchange =
     (Returned (NilValue :: unit val, Some (VkError 400 ''Bad Request'')),
      recording Map.empty (sent (Some 400) Map.empty [])) \<and>
   accepts (GET ''/ws'') emptyExchange = (Inr (), recording Map.empty (sent (Some 101) Map.empty [])) \<and>
   wsHandlerWrap accepts ws_fails (GET ''/ws'') emptyExchange =
     (Returned (NilValue :: unit val, Some (GenericError ''read failed'')),
      recording Map.empty (sent (Some 101) Map.empty []))"
  using wsHandlerWrap_result [where Upgrade = refuses and r = "GET ''/ws''" and ctx = emptyExchange
      and uerr = "VkError 400 ''Bad Request''" and ctx' = "recording Map.empty (sent (Some 400) Map.empty [])"
      and status = 400 and body = "''Bad Request''" and ctype = "''text/plain''" and inner = ws_fails]
    wsHandlerWrap_result [where Upgrade = accepts and r = "GET ''/ws''" and ctx = emptyExchange
      and conn = "()" and ctx' = "recording Map.empty (sent (Some 101) Map.empty [])" and inner = ws_fails
      and err = "Some (GenericError ''read failed'')" and ctx'' = "recording Map.empty (sent (Some 101) Map.empty [])"]
  by (simp add: refuses_def accepts_def ws_fails_def errorOrOtherToBytes_def wsHandlerWrap_def E_def
      WriteHeader_def emptyExchange_def recording_def sent_def recorder_WriteHeader_def)

lemma WrapHandler_filter: "WrapHandler handler (filter (\<lambda>m. m \<noteq> None) mw) = WrapHandler handler mw"
  by (induction mw arbitrary: handler) (auto split: option.splits)

lemma WrapHandler_foldl:
  "WrapHandler handler mw = foldl (\<lambda>h f. f h) handler (List.map_filter (\<lambda>m. m) mw)"
  by (induction mw arbitrary: handler) (auto split: option.splits)

lemma WrapHandler_append:
  "WrapHandler handler (mw @ mw') = WrapHandler (WrapHandler handler mw) mw'"
  by (induction mw arbitrary: handler) (auto split: option.splits)

text \<open>
  Claim C10. WrapHandler skips the \<^verbatim>\<open>nil\<close> entries of its list: the handler it returns
  is the one it returns for the list without them, the remaining middleware applied
  first to last, so that the last middleware that is not \<^verbatim>\<open>nil\<close> is the outermost.
\<close>

theorem WrapHandler_skips_nil:
  "WrapHandler handler mw = WrapHandler handler (filter (\<lambda>m. m \<noteq> None) mw)
   \<and> WrapHandler handler mw = foldl (\<lambda>h f. f h) handler (List.map_filter (\<lambda>m. m) mw)
   \<and> WrapHandler handler (mw @ [Some f]) = f (WrapHandler handler mw)
   \<and> WrapHandler handler (mw @ [None]) = WrapHandler handler mw
   \<and> WrapHandler handler (mw @ Some f # replicate n None) = f (WrapHandler handler mw)"
proof (intro conjI)
  show "WrapHandler handler mw = WrapHandler handler (filter (\<lambda>m. m \<noteq> None) mw)"
    by (rule WrapHandler_filter [symmetric])
  show "WrapHandler handler mw = foldl (\<lambda>h f. f h) handler (List.map_filter (\<lambda>m. m) mw)"
    by (rule WrapHandler_foldl)
  show "WrapHandler handler (mw @ [Some f]) = f (WrapHandler handler mw)"
    by (simp add: WrapHandler_append)
  show "WrapHandler handler (mw @ [None]) = WrapHandler handler mw"
    by (simp add: WrapHandler_append)
  have "WrapHandler h (replicate n None) = h" for h :: "('a, 'b, 'c) HandlerFunc"
    by (induction n) simp_all
  then show "WrapHandler handler (mw @ Some f # replicate n None) = f (WrapHandler handler mw)"
    by (simp add: WrapHandler_append)
qed

end
